theory Spec2Isabelle
  imports Main "HOL-Library.Char_ord" "HOL-Library.List_Lexorder"
begin

section \<open>The reservation handler of task12 (api\_handler/index.js)\<close>

text \<open>
  The development embeds \<^verbatim>\<open>handleCreateReservation\<close> together with the helpers it calls
  (\<^verbatim>\<open>getUsernameFromToken\<close>, \<^verbatim>\<open>formatResponse\<close>, \<^verbatim>\<open>corsHeaders\<close>) and the three
  store operations it issues through the document client.

  Strings are byte lists ordered lexicographically (a proper prefix is smaller), which is
  the order the store uses for string attributes in \<^verbatim>\<open>BETWEEN\<close>.
\<close>

subsection \<open>Data\<close>

text \<open>
  The request body after the destructuring of line 270. A field that is absent
  (\<^verbatim>\<open>undefined\<close>) is \<open>None\<close>. The fields carry the types of the request interface:
  \<^verbatim>\<open>tableNumber\<close> is a number (an integer here), the others are strings.
\<close>

record body =
  tableNumber :: "int option"
  clientName :: "string option"
  phoneNumber :: "string option"
  date :: "string option"
  slotTimeStart :: "string option"
  slotTimeEnd :: "string option"

text \<open>
  What \<^verbatim>\<open>JSON.parse(event.body)\<close> of line 268 and the destructuring of line 270 make of
  the body. \<open>Unparsable\<close>: the parse throws (a body that is no JSON text, or no body).
  \<open>JsonNull\<close>: the parse yields \<^verbatim>\<open>null\<close> and the destructuring throws.
  \<open>JsonObject\<close>: the destructuring goes through; a number, a string, a boolean or an
  array destructures to six absent fields.
\<close>

datatype parsed = Unparsable | JsonNull | JsonObject body

text \<open>
  The event. \<open>claims\<close> is \<^verbatim>\<open>event.requestContext.authorizer.claims\<close> as its list of
  keys and values, \<open>None\<close> when any link of that chain is missing.
\<close>

record event =
  claims :: "(string \<times> string) list option"
  parsedBody :: parsed

text \<open>An item of the tables table, as \<^verbatim>\<open>handleCreateTable\<close> writes it.\<close>

record table_item =
  tbl_id :: string
  tbl_number :: int
  places :: int
  isVip :: bool
  minOrder :: int

text \<open>
  An item of the reservations table: the \<^verbatim>\<open>reservation\<close> object of lines 312--323.
  \<^verbatim>\<open>clientName\<close> and \<^verbatim>\<open>phoneNumber\<close> may be \<^verbatim>\<open>undefined\<close>.
\<close>

record reservation_item =
  res_id :: string
  res_tableId :: string
  res_tableNumber :: int
  res_clientName :: "string option"
  res_phoneNumber :: "string option"
  res_username :: string
  res_date :: string
  res_time :: string
  res_slotTimeEnd :: string
  res_createdAt :: string

text \<open>
  The calls the handler issues to the store, with their expression values. A call the
  store did not carry out is logged as \<open>Refused\<close>.
\<close>

datatype store_call =
  ScanTables int
  | ScanReservations string string string string
  | PutReservation reservation_item
  | Refused store_call

text \<open>The errors a store call throws.\<close>

datatype store_error = ValidationException | ServiceError

text \<open>
  The store: both tables in scan order, and the log of the calls made so far.
\<close>

record db =
  tablesTable :: "table_item list"
  reservationsTable :: "reservation_item list"
  calls :: "store_call list"

text \<open>
  What the handler meets in its surroundings during one request: the value
  \<^verbatim>\<open>uuidv4()\<close> returns, the value of \<^verbatim>\<open>new Date().toISOString()\<close>, the number of items
  the one page of each scan spans (the store cuts a page at 1 MB of items read, before
  the filter; the sizes of the items are not modelled, so the count is given), and
  whether the store fails to answer a call.
\<close>

record env =
  uuidv4 :: string
  nowISO :: string
  tablesPage :: nat
  reservationsPage :: nat
  tableScanFails :: bool
  reservationScanFails :: bool
  putFails :: bool

text \<open>
  A response. \<open>respBody\<close> is the object handed to \<^verbatim>\<open>JSON.stringify\<close>, as its list of
  keys and values.
\<close>

record response =
  statusCode :: nat
  headers :: "(string \<times> string) list"
  respBody :: "(string \<times> string) list"

subsection \<open>Helpers\<close>

definition corsHeaders :: "(string \<times> string) list" where
  "corsHeaders =
     [(''Access-Control-Allow-Headers'',
        ''Content-Type,X-Amz-Date,Authorization,X-Api-Key,X-Amz-Security-Token''),
      (''Access-Control-Allow-Origin'', ''*''),
      (''Access-Control-Allow-Methods'', ''*''),
      (''Accept-Version'', ''*'')]"

definition formatResponse :: "nat \<Rightarrow> (string \<times> string) list \<Rightarrow> response" where
  "formatResponse code b = \<lparr>statusCode = code, headers = corsHeaders, respBody = b\<rparr>"

definition getUsernameFromToken :: "event \<Rightarrow> string option" where
  "getUsernameFromToken ev =
     (case claims ev of
        Some c \<Rightarrow> map_of c ''cognito:username''
      | None \<Rightarrow> None)"

text \<open>JavaScript truthiness of a string or number that may be \<^verbatim>\<open>undefined\<close>.\<close>

fun truthyStr :: "string option \<Rightarrow> bool" where
  "truthyStr None = False"
| "truthyStr (Some s) = (s \<noteq> [])"

fun truthyNum :: "int option \<Rightarrow> bool" where
  "truthyNum None = False"
| "truthyNum (Some n) = (n \<noteq> 0)"

subsection \<open>The store operations\<close>

text \<open>\<^verbatim>\<open>v BETWEEN lo AND hi\<close>: both ends inclusive.\<close>

definition between :: "string \<Rightarrow> string \<Rightarrow> string \<Rightarrow> bool" where
  "between v lo hi = (lo \<le> v \<and> v \<le> hi)"

text \<open>The filter expression of line 278.\<close>

definition tableFilter :: "int \<Rightarrow> table_item \<Rightarrow> bool" where
  "tableFilter n t = (tbl_number t = n)"

text \<open>The filter expression of line 294.\<close>

definition reservationFilter ::
  "string \<Rightarrow> string \<Rightarrow> string \<Rightarrow> string \<Rightarrow> reservation_item \<Rightarrow> bool" where
  "reservationFilter tid d st en r =
     (res_tableId r = tid \<and> res_date r = d \<and>
      (between (res_time r) st en \<or> between st (res_time r) (res_slotTimeEnd r)))"

text \<open>
  The handler calls \<^verbatim>\<open>scan\<close> once for each table and never follows
  \<^verbatim>\<open>LastEvaluatedKey\<close>: a scan reads the first page only.
\<close>

definition tablesRead :: "env \<Rightarrow> db \<Rightarrow> table_item list" where
  "tablesRead e s = take (tablesPage e) (tablesTable s)"

definition reservationsRead :: "env \<Rightarrow> db \<Rightarrow> reservation_item list" where
  "reservationsRead e s = take (reservationsPage e) (reservationsTable s)"

text \<open>
  A scan returns the items of its page that pass the filter, in scan order, or throws.
  Each call is logged. The store refuses \<^verbatim>\<open>BETWEEN :start AND :end\<close> with a
  \<^verbatim>\<open>ValidationException\<close> when the lower bound is above the upper bound; both are
  values of the request, so this is decided before any item is read.
\<close>

definition scanTables :: "env \<Rightarrow> int \<Rightarrow> db \<Rightarrow> (store_error + table_item list) \<times> db" where
  "scanTables e n s =
     (if tableScanFails e
      then (Inl ServiceError, s\<lparr>calls := calls s @ [Refused (ScanTables n)]\<rparr>)
      else (Inr (filter (tableFilter n) (tablesRead e s)),
            s\<lparr>calls := calls s @ [ScanTables n]\<rparr>))"

definition scanReservations ::
  "env \<Rightarrow> string \<Rightarrow> string \<Rightarrow> string \<Rightarrow> string \<Rightarrow> db \<Rightarrow>
   (store_error + reservation_item list) \<times> db" where
  "scanReservations e tid d st en s =
     (if en < st
      then (Inl ValidationException,
            s\<lparr>calls := calls s @ [Refused (ScanReservations tid d st en)]\<rparr>)
      else if reservationScanFails e
      then (Inl ServiceError,
            s\<lparr>calls := calls s @ [Refused (ScanReservations tid d st en)]\<rparr>)
      else (Inr (filter (reservationFilter tid d st en) (reservationsRead e s)),
            s\<lparr>calls := calls s @ [ScanReservations tid d st en]\<rparr>))"

text \<open>
  Modelled from the spec: the key schema of the reservations table is declared outside
  the sources; the identifier attribute \<^verbatim>\<open>id\<close> is taken as its key. A put replaces the
  item with the same key where there is one and adds the item otherwise.
\<close>

definition putItem :: "reservation_item \<Rightarrow> reservation_item list \<Rightarrow> reservation_item list" where
  "putItem item rs =
     (if list_ex (\<lambda>r. res_id r = res_id item) rs
      then map (\<lambda>r. if res_id r = res_id item then item else r) rs
      else rs @ [item])"

text \<open>A put the store fails to answer throws and writes nothing.\<close>

definition putReservation :: "env \<Rightarrow> reservation_item \<Rightarrow> db \<Rightarrow> (store_error + unit) \<times> db" where
  "putReservation e item s =
     (if putFails e
      then (Inl ServiceError, s\<lparr>calls := calls s @ [Refused (PutReservation item)]\<rparr>)
      else (Inr (),
            s\<lparr>reservationsTable := putItem item (reservationsTable s),
              calls := calls s @ [PutReservation item]\<rparr>))"

subsection \<open>The handler\<close>

definition unauthorized :: response where
  "unauthorized = formatResponse 401 [(''message'', ''Unauthorized'')]"

definition requiredFields :: response where
  "requiredFields = formatResponse 400
     [(''message'', ''Table number, date, slotTimeStart, and slotTimeEnd are required'')]"

definition tableNotFound :: response where
  "tableNotFound = formatResponse 400 [(''message'', ''Table not found'')]"

definition alreadyReserved :: response where
  "alreadyReserved = formatResponse 400
     [(''message'', ''Table is already reserved for the selected date and time'')]"

definition internalServerError :: response where
  "internalServerError = formatResponse 500 [(''message'', ''Internal Server Error'')]"

definition created :: "string \<Rightarrow> response" where
  "created rid = formatResponse 200
     [(''reservationId'', rid), (''message'', ''Reservation created successfully'')]"

text \<open>The \<^verbatim>\<open>reservation\<close> object of lines 312--323.\<close>

definition newReservation ::
  "env \<Rightarrow> string \<Rightarrow> table_item \<Rightarrow> body \<Rightarrow> reservation_item" where
  "newReservation e username t b =
     \<lparr>res_id = uuidv4 e,
      res_tableId = tbl_id t,
      res_tableNumber = tbl_number t,
      res_clientName = clientName b,
      res_phoneNumber = phoneNumber b,
      res_username = username,
      res_date = the (date b),
      res_time = the (slotTimeStart b),
      res_slotTimeEnd = the (slotTimeEnd b),
      res_createdAt = nowISO e\<rparr>"

text \<open>
  \<^verbatim>\<open>handleCreateReservation\<close>, lines 262--336. The branches are in the order of the
  source; whatever is thrown inside the \<^verbatim>\<open>try\<close> (by the parse, the destructuring or a
  store call) is answered by the \<^verbatim>\<open>catch\<close> of line 333. \<open>the\<close> is applied only behind
  the truthiness test of line 271, where the field is present.
\<close>

definition handleCreateReservation :: "env \<Rightarrow> db \<Rightarrow> event \<Rightarrow> response \<times> db" where
  "handleCreateReservation e s ev =
     (let username = getUsernameFromToken ev in
      if \<not> truthyStr username then (unauthorized, s)
      else
        (case parsedBody ev of
           Unparsable \<Rightarrow> (internalServerError, s)
         | JsonNull \<Rightarrow> (internalServerError, s)
         | JsonObject b \<Rightarrow>
             if \<not> truthyNum (tableNumber b) \<or> \<not> truthyStr (date b) \<or>
                \<not> truthyStr (slotTimeStart b) \<or> \<not> truthyStr (slotTimeEnd b)
             then (requiredFields, s)
             else
               (case scanTables e (the (tableNumber b)) s of
                  (Inl _, s1) \<Rightarrow> (internalServerError, s1)
                | (Inr [], s1) \<Rightarrow> (tableNotFound, s1)
                | (Inr (t # _), s1) \<Rightarrow>
                    (case scanReservations e (tbl_id t) (the (date b))
                            (the (slotTimeStart b)) (the (slotTimeEnd b)) s1 of
                       (Inl _, s2) \<Rightarrow> (internalServerError, s2)
                     | (Inr (_ # _), s2) \<Rightarrow> (alreadyReserved, s2)
                     | (Inr [], s2) \<Rightarrow>
                         (let reservation = newReservation e (the username) t b
                          in (case putReservation e reservation s2 of
                                (Inl _, s3) \<Rightarrow> (internalServerError, s3)
                              | (Inr _, s3) \<Rightarrow> (created (res_id reservation), s3)))))))"

text \<open>
  A request is authorized when line 265 lets it pass, and populated when line 271 does.
\<close>

definition authorized :: "event \<Rightarrow> bool" where
  "authorized ev = truthyStr (getUsernameFromToken ev)"

definition populated :: "body \<Rightarrow> bool" where
  "populated b =
     (truthyNum (tableNumber b) \<and> truthyStr (date b) \<and>
      truthyStr (slotTimeStart b) \<and> truthyStr (slotTimeEnd b))"

text \<open>The items written by the puts of a list of calls; a refused put writes nothing.\<close>

fun writes :: "store_call list \<Rightarrow> reservation_item list" where
  "writes [] = []"
| "writes (PutReservation r # cs) = r # writes cs"
| "writes (_ # cs) = writes cs"

text \<open>A call as it was issued, carried out or not.\<close>

fun issued :: "store_call \<Rightarrow> store_call" where
  "issued (Refused c) = issued c"
| "issued c = c"

text \<open>The calls one request adds to the log.\<close>

definition newCalls :: "env \<Rightarrow> db \<Rightarrow> event \<Rightarrow> store_call list" where
  "newCalls e s ev = drop (length (calls s)) (calls (snd (handleCreateReservation e s ev)))"

subsection \<open>The overlap predicate of the specification\<close>

text \<open>
  The specification words the conflict test as
  \<^verbatim>\<open>existing.start <= candidate.end AND candidate.start <= existing.end\<close>.
  \<open>specOverlap\<close> follows those words; \<open>specConflict\<close> asks it of some existing
  reservation of the same table and date.
\<close>

definition specOverlap :: "reservation_item \<Rightarrow> string \<Rightarrow> string \<Rightarrow> bool" where
  "specOverlap existing st en = (res_time existing \<le> en \<and> st \<le> res_slotTimeEnd existing)"

definition specConflict ::
  "string \<Rightarrow> string \<Rightarrow> string \<Rightarrow> string \<Rightarrow> reservation_item list \<Rightarrow> bool" where
  "specConflict tid d st en rs =
     list_ex (\<lambda>r. res_tableId r = tid \<and> res_date r = d \<and> specOverlap r st en) rs"

subsection \<open>The scenarios of the specification as data\<close>

text \<open>
  Table number 5 exists and has no reservation for 2024-06-01; user alice books it.
  In \<open>env0\<close>, \<open>env1\<close> and \<open>env2\<close> the store answers every call and a page spans 100
  items. \<open>booked st en\<close> is the store after a first booking from \<open>st\<close> to \<open>en\<close>.
\<close>

definition requestOf :: "body \<Rightarrow> event" where
  "requestOf b =
     \<lparr>claims = Some [(''cognito:username'', ''alice'')], parsedBody = JsonObject b\<rparr>"

definition booking :: "string \<Rightarrow> string \<Rightarrow> body" where
  "booking st en =
     \<lparr>tableNumber = Some 5, clientName = Some ''Alice'', phoneNumber = None,
      date = Some ''2024-06-01'', slotTimeStart = Some st, slotTimeEnd = Some en\<rparr>"

definition table5 :: table_item where
  "table5 = \<lparr>tbl_id = ''T5'', tbl_number = 5, places = 4, isVip = False, minOrder = 0\<rparr>"

definition scenarioDb :: db where
  "scenarioDb = \<lparr>tablesTable = [table5], reservationsTable = [], calls = []\<rparr>"

definition env0 :: env where
  "env0 = \<lparr>uuidv4 = ''r-0'', nowISO = ''2024-05-30T09:00:00.000Z'',
     tablesPage = 100, reservationsPage = 100,
     tableScanFails = False, reservationScanFails = False, putFails = False\<rparr>"

definition env1 :: env where
  "env1 = \<lparr>uuidv4 = ''r-1'', nowISO = ''2024-05-30T10:00:00.000Z'',
     tablesPage = 100, reservationsPage = 100,
     tableScanFails = False, reservationScanFails = False, putFails = False\<rparr>"

definition env2 :: env where
  "env2 = \<lparr>uuidv4 = ''r-2'', nowISO = ''2024-05-30T11:00:00.000Z'',
     tablesPage = 100, reservationsPage = 100,
     tableScanFails = False, reservationScanFails = False, putFails = False\<rparr>"

definition booked :: "string \<Rightarrow> string \<Rightarrow> db" where
  "booked st en = snd (handleCreateReservation env1 scenarioDb (requestOf (booking st en)))"

text \<open>A second table with the number 5, and the reservation alice's request builds.\<close>

definition table5b :: table_item where
  "table5b = \<lparr>tbl_id = ''T5b'', tbl_number = 5, places = 8, isVip = True, minOrder = 100\<rparr>"

definition reservationOf :: "env \<Rightarrow> string \<Rightarrow> string \<Rightarrow> reservation_item" where
  "reservationOf e st en = newReservation e ''alice'' table5 (booking st en)"

text \<open>
  A store that already holds a reservation of the day before, written by the handler,
  and the same store after the booking from \<open>st\<close> to \<open>en\<close>.
\<close>

definition dayBefore :: body where
  "dayBefore = (booking ''12:00'' ''13:00'')\<lparr>date := Some ''2024-05-31''\<rparr>"

definition earlierDb :: db where
  "earlierDb = snd (handleCreateReservation env0 scenarioDb (requestOf dayBefore))"

definition bookedLater :: "string \<Rightarrow> string \<Rightarrow> db" where
  "bookedLater st en =
     snd (handleCreateReservation env1 earlierDb (requestOf (booking st en)))"

text \<open>The same surroundings with a page of one reservation.\<close>

definition onePage :: "env \<Rightarrow> env" where
  "onePage e = e\<lparr>reservationsPage := 1\<rparr>"

section \<open>Properties\<close>

subsection \<open>Unfolding the handler\<close>

lemmas core_defs =
  handleCreateReservation_def getUsernameFromToken_def scanTables_def scanReservations_def
  putReservation_def newReservation_def tablesRead_def reservationsRead_def
  unauthorized_def internalServerError_def requiredFields_def tableNotFound_def
  alreadyReserved_def created_def formatResponse_def authorized_def populated_def
  newCalls_def Let_def

lemmas response_defs =
  unauthorized_def internalServerError_def requiredFields_def tableNotFound_def
  alreadyReserved_def created_def formatResponse_def

lemma scanTables_fst:
  "fst (scanTables e n s) =
   (if tableScanFails e then Inl ServiceError
    else Inr (filter (tableFilter n) (tablesRead e s)))"
  by (simp add: scanTables_def)

lemma scanReservations_fst:
  "fst (scanReservations e tid d st en s) =
   (if en < st then Inl ValidationException
    else if reservationScanFails e then Inl ServiceError
    else Inr (filter (reservationFilter tid d st en) (reservationsRead e s)))"
  by (simp add: scanReservations_def)

lemma scanTables_snd_read:
  "reservationsRead e (snd (scanTables e' n s)) = reservationsRead e s"
  by (simp add: scanTables_def reservationsRead_def)

lemma putItem_fresh:
  assumes "res_id item \<notin> res_id ` set rs"
  shows "putItem item rs = rs @ [item]"
proof -
  have "\<not> list_ex (\<lambda>r. res_id r = res_id item) rs"
    using assms unfolding list_ex_iff image_iff by auto
  then show ?thesis
    by (simp add: putItem_def)
qed

lemma putItem_subset: "set (putItem item rs) \<subseteq> insert item (set rs)"
  by (auto simp: putItem_def)

text \<open>
  The handler stores only ranges whose start is not after their end: a store whose
  reservations all came from the handler has no inverted range.
\<close>

lemma handler_keeps_ranges_ordered:
  assumes "\<forall>r\<in>set (reservationsTable s). res_time r \<le> res_slotTimeEnd r"
  shows "\<forall>r\<in>set (reservationsTable (snd (handleCreateReservation e s ev))).
     res_time r \<le> res_slotTimeEnd r"
proof -
  let ?h = "handleCreateReservation e s ev"
  have "reservationsTable (snd ?h) = reservationsTable s \<or>
      (\<exists>item. writes (newCalls e s ev) = [item] \<and> res_time item \<le> res_slotTimeEnd item \<and>
         reservationsTable (snd ?h) = putItem item (reservationsTable s))"
    by (simp add: core_defs not_less split: parsed.split sum.split list.split prod.split)
  then show ?thesis
  proof
    assume "reservationsTable (snd ?h) = reservationsTable s"
    with assms show ?thesis
      by simp
  next
    assume "\<exists>item. writes (newCalls e s ev) = [item] \<and>
        res_time item \<le> res_slotTimeEnd item \<and>
        reservationsTable (snd ?h) = putItem item (reservationsTable s)"
    then obtain item where "res_time item \<le> res_slotTimeEnd item"
      and "reservationsTable (snd ?h) = putItem item (reservationsTable s)"
      by blast
    then show ?thesis
      using assms putItem_subset [of item "reservationsTable s"]
      by auto
  qed
qed

subsection \<open>Evaluating the scenarios\<close>

lemmas handler_defs =
  handleCreateReservation_def getUsernameFromToken_def scanTables_def scanReservations_def
  putReservation_def putItem_def newReservation_def tableFilter_def reservationFilter_def
  tablesRead_def reservationsRead_def
  between_def created_def alreadyReserved_def tableNotFound_def requiredFields_def
  unauthorized_def internalServerError_def formatResponse_def Let_def

lemmas scenario_defs =
  requestOf_def booking_def table5_def scenarioDb_def env0_def env1_def env2_def booked_def

lemma request_ok:
  "authorized (requestOf b)" "parsedBody (requestOf b) = JsonObject b"
  "getUsernameFromToken (requestOf b) = Some ''alice''"
  "populated (booking st en) \<longleftrightarrow> st \<noteq> [] \<and> en \<noteq> []"
  "authorized ((requestOf b)\<lparr>parsedBody := p\<rparr>)"
  by (simp_all add: authorized_def getUsernameFromToken_def requestOf_def populated_def
      booking_def)

lemma booked_as_reservation:
  "st \<noteq> [] \<Longrightarrow> en \<noteq> [] \<Longrightarrow> st \<le> en \<Longrightarrow>
   booked st en =
     \<lparr>tablesTable = [table5], reservationsTable = [reservationOf env1 st en],
      calls = [ScanTables 5, ScanReservations ''T5'' ''2024-06-01'' st en,
        PutReservation (reservationOf env1 st en)]\<rparr>"
  by (simp add: handler_defs scenario_defs reservationOf_def not_less)

lemma earlierDb_eval:
  "earlierDb =
     \<lparr>tablesTable = [table5],
      reservationsTable = [newReservation env0 ''alice'' table5 dayBefore],
      calls = [ScanTables 5, ScanReservations ''T5'' ''2024-05-31'' ''12:00'' ''13:00'',
        PutReservation (newReservation env0 ''alice'' table5 dayBefore)]\<rparr>"
  by (simp add: earlierDb_def dayBefore_def handler_defs scenario_defs)

lemma bookedLater_eval:
  "st \<noteq> [] \<Longrightarrow> en \<noteq> [] \<Longrightarrow> st \<le> en \<Longrightarrow>
   bookedLater st en =
     \<lparr>tablesTable = [table5],
      reservationsTable =
        [newReservation env0 ''alice'' table5 dayBefore, reservationOf env1 st en],
      calls = [ScanTables 5, ScanReservations ''T5'' ''2024-05-31'' ''12:00'' ''13:00'',
        PutReservation (newReservation env0 ''alice'' table5 dayBefore),
        ScanTables 5, ScanReservations ''T5'' ''2024-06-01'' st en,
        PutReservation (reservationOf env1 st en)]\<rparr>"
  by (simp add: bookedLater_def earlierDb_eval)
    (simp add: handler_defs dayBefore_def requestOf_def booking_def table5_def env0_def
      env1_def reservationOf_def not_less)

lemma reservationOf_fields:
  "res_id (reservationOf e st en) = uuidv4 e"
  "res_tableId (reservationOf e st en) = ''T5''"
  "res_date (reservationOf e st en) = ''2024-06-01''"
  "res_time (reservationOf e st en) = st"
  "res_slotTimeEnd (reservationOf e st en) = en"
  "res_createdAt (reservationOf e st en) = nowISO e"
  by (simp_all add: reservationOf_def newReservation_def booking_def table5_def)

lemma dayBefore_fields:
  "res_id (newReservation env0 ''alice'' table5 dayBefore) = ''r-0''"
  "res_tableId (newReservation env0 ''alice'' table5 dayBefore) = ''T5''"
  "res_date (newReservation env0 ''alice'' table5 dayBefore) = ''2024-05-31''"
  "res_time (newReservation env0 ''alice'' table5 dayBefore) = ''12:00''"
  "res_slotTimeEnd (newReservation env0 ''alice'' table5 dayBefore) = ''13:00''"
  by (simp_all add: newReservation_def dayBefore_def booking_def table5_def env0_def)

lemma env_fields:
  "uuidv4 env1 = ''r-1''" "uuidv4 env2 = ''r-2''"
  "nowISO env2 = ''2024-05-30T11:00:00.000Z''"
  "tablesPage env1 = 100" "tablesPage env2 = 100"
  "reservationsPage env1 = 100" "reservationsPage env2 = 100"
  "\<not> tableScanFails env1" "\<not> tableScanFails env2"
  "\<not> reservationScanFails env1" "\<not> reservationScanFails env2"
  "\<not> putFails env1" "\<not> putFails env2"
  by (simp_all add: env1_def env2_def)

subsection \<open>The conflict test\<close>

text \<open>
  C1, as the code has it. For an authorized, populated request whose table scan returns
  \<open>t\<close> first and whose conflict scan is answered (the start is not after the end, and
  the store does not fail), the response is HTTP 400 with the conflict message exactly
  when some reservation in the page the scan reads, of table \<open>t\<close> and of the requested
  date, has its start inside the candidate range or has the candidate start inside its
  own range (the two \<^verbatim>\<open>BETWEEN\<close> tests of the filter). The conjunction of the
  specification, \<^verbatim>\<open>existing.start <= candidate.end AND candidate.start <= existing.end\<close>,
  asked of the reservations in that page, leads to that response, and is equivalent to
  the filter when they have start \<open>\<le>\<close> end.
\<close>

theorem conflict_iff_filter:
  assumes "authorized ev" and "parsedBody ev = JsonObject b" and "populated b"
    and "tableNumber b = Some n" and "date b = Some d"
    and "slotTimeStart b = Some st" and "slotTimeEnd b = Some en"
    and "fst (scanTables e n s) = Inr (t # ts)"
    and "st \<le> en" and "\<not> reservationScanFails e"
  shows "(statusCode (fst (handleCreateReservation e s ev)) = 400 \<and>
          respBody (fst (handleCreateReservation e s ev)) =
            [(''message'', ''Table is already reserved for the selected date and time'')]
          \<longleftrightarrow>
          (\<exists>r\<in>set (take (reservationsPage e) (reservationsTable s)).
             res_tableId r = tbl_id t \<and> res_date r = d \<and>
             (st \<le> res_time r \<and> res_time r \<le> en \<or>
              res_time r \<le> st \<and> st \<le> res_slotTimeEnd r)))
       \<and> (specConflict (tbl_id t) d st en (take (reservationsPage e) (reservationsTable s)) \<longrightarrow>
            statusCode (fst (handleCreateReservation e s ev)) = 400 \<and>
            respBody (fst (handleCreateReservation e s ev)) =
              [(''message'', ''Table is already reserved for the selected date and time'')])
       \<and> ((\<forall>r\<in>set (take (reservationsPage e) (reservationsTable s)).
              res_time r \<le> res_slotTimeEnd r) \<longrightarrow>
            (statusCode (fst (handleCreateReservation e s ev)) = 400 \<and>
             respBody (fst (handleCreateReservation e s ev)) =
               [(''message'', ''Table is already reserved for the selected date and time'')]
             \<longleftrightarrow>
             specConflict (tbl_id t) d st en (take (reservationsPage e) (reservationsTable s))))"
proof -
  let ?page = "take (reservationsPage e) (reservationsTable s)"
  let ?h = "handleCreateReservation e s ev"
  let ?rej = "statusCode (fst ?h) = 400 \<and> respBody (fst ?h) =
      [(''message'', ''Table is already reserved for the selected date and time'')]"
  have ord: "\<not> en < st"
    using assms(9) by simp
  have run: "?rej \<longleftrightarrow> filter (reservationFilter (tbl_id t) d st en) ?page \<noteq> []"
    using assms ord
    by (simp add: core_defs split: if_splits list.split)
  have hit: "filter (reservationFilter (tbl_id t) d st en) ?page \<noteq> [] \<longleftrightarrow>
      (\<exists>r\<in>set ?page. res_tableId r = tbl_id t \<and> res_date r = d \<and>
         (st \<le> res_time r \<and> res_time r \<le> en \<or>
          res_time r \<le> st \<and> st \<le> res_slotTimeEnd r))"
    by (auto simp: filter_empty_conv reservationFilter_def between_def)
  have up: "specConflict (tbl_id t) d st en ?page \<Longrightarrow>
      \<exists>r\<in>set ?page. res_tableId r = tbl_id t \<and> res_date r = d \<and>
         (st \<le> res_time r \<and> res_time r \<le> en \<or>
          res_time r \<le> st \<and> st \<le> res_slotTimeEnd r)"
    unfolding specConflict_def specOverlap_def list_ex_iff by force
  have down: "\<forall>r\<in>set ?page. res_time r \<le> res_slotTimeEnd r \<Longrightarrow>
      \<exists>r\<in>set ?page. res_tableId r = tbl_id t \<and> res_date r = d \<and>
         (st \<le> res_time r \<and> res_time r \<le> en \<or>
          res_time r \<le> st \<and> st \<le> res_slotTimeEnd r) \<Longrightarrow>
      specConflict (tbl_id t) d st en ?page"
    unfolding specConflict_def specOverlap_def list_ex_iff using assms(9) by force
  show ?thesis
    using run hit up down by blast
qed

text \<open>
  The instance of C1 at scenario 2: 18:00--19:00 is booked, 18:30--19:30 is requested.
\<close>

theorem conflict_iff_filter_witness:
  "statusCode (fst (handleCreateReservation env2 (booked ''18:00'' ''19:00'')
          (requestOf (booking ''18:30'' ''19:30'')))) = 400
   \<and> respBody (fst (handleCreateReservation env2 (booked ''18:00'' ''19:00'')
          (requestOf (booking ''18:30'' ''19:30'')))) =
       [(''message'', ''Table is already reserved for the selected date and time'')]
   \<and> specConflict ''T5'' ''2024-06-01'' ''18:30'' ''19:30''
          (take (reservationsPage env2) (reservationsTable (booked ''18:00'' ''19:00'')))"
proof -
  have read: "take (reservationsPage env2) (reservationsTable (booked ''18:00'' ''19:00'')) =
      [reservationOf env1 ''18:00'' ''19:00'']"
    "take 100 (reservationsTable (booked ''18:00'' ''19:00'')) =
      [reservationOf env1 ''18:00'' ''19:00'']"
    by (simp_all add: booked_as_reservation env_fields)
  have spec: "specConflict ''T5'' ''2024-06-01'' ''18:30'' ''19:30''
      [reservationOf env1 ''18:00'' ''19:00'']"
    by (simp add: specConflict_def specOverlap_def reservationOf_fields)
  have tabs: "fst (scanTables env2 5 (booked ''18:00'' ''19:00'')) = Inr [table5]"
    by (simp add: scanTables_fst env_fields tablesRead_def booked_as_reservation
        tableFilter_def) (simp add: table5_def)
  show ?thesis
    using conflict_iff_filter [of "requestOf (booking ''18:30'' ''19:30'')"
        "booking ''18:30'' ''19:30''" 5 "''2024-06-01''" "''18:30''" "''19:30''" env2
        "booked ''18:00'' ''19:00''" table5 "[]"] tabs spec
    by (simp add: request_ok env_fields read) (simp add: booking_def table5_def)
qed

text \<open>
  C1 as worded fails in three ways. With 18:00--19:00 booked, the request 18:30--18:10
  (start after end) meets the conjunction of the specification at the booked
  reservation, yet the answer is HTTP 500 and not the conflict response: the store
  refuses the scan. With 18:00--19:00 booked behind a reservation of the day before and
  a page of one item, the request 18:30--19:30 also meets the conjunction and is
  admitted. With 18:00--19:00 booked and the conflict scan failing, the request
  18:30--19:30 gets HTTP 500.
\<close>

theorem conjunction_met_without_conflict_response:
  "reservationsTable (booked ''18:00'' ''19:00'') = [reservationOf env1 ''18:00'' ''19:00'']
   \<and> specConflict ''T5'' ''2024-06-01'' ''18:30'' ''18:10''
        (reservationsTable (booked ''18:00'' ''19:00''))
   \<and> statusCode (fst (handleCreateReservation env2 (booked ''18:00'' ''19:00'')
        (requestOf (booking ''18:30'' ''18:10'')))) = 500
   \<and> respBody (fst (handleCreateReservation env2 (booked ''18:00'' ''19:00'')
        (requestOf (booking ''18:30'' ''18:10'')))) =
       [(''message'', ''Internal Server Error'')]
   \<and> specConflict ''T5'' ''2024-06-01'' ''18:30'' ''19:30''
        (reservationsTable (bookedLater ''18:00'' ''19:00''))
   \<and> statusCode (fst (handleCreateReservation (onePage env2)
        (bookedLater ''18:00'' ''19:00'') (requestOf (booking ''18:30'' ''19:30'')))) = 200
   \<and> specConflict ''T5'' ''2024-06-01'' ''18:30'' ''19:30''
        (reservationsTable (booked ''18:00'' ''19:00''))
   \<and> statusCode (fst (handleCreateReservation (env2\<lparr>reservationScanFails := True\<rparr>)
        (booked ''18:00'' ''19:00'') (requestOf (booking ''18:30'' ''19:30'')))) = 500"
proof -
  have "handleCreateReservation env2 (booked ''18:00'' ''19:00'')
        (requestOf (booking ''18:30'' ''18:10'')) =
      (internalServerError,
       (booked ''18:00'' ''19:00'')\<lparr>calls := calls (booked ''18:00'' ''19:00'') @
          [ScanTables 5,
           Refused (ScanReservations ''T5'' ''2024-06-01'' ''18:30'' ''18:10'')]\<rparr>)"
    by (simp add: booked_as_reservation)
      (simp add: handleCreateReservation_def getUsernameFromToken_def scanTables_def
        scanReservations_def tablesRead_def tableFilter_def requestOf_def booking_def
        table5_def env2_def)
  moreover have "fst (handleCreateReservation (onePage env2)
        (bookedLater ''18:00'' ''19:00'') (requestOf (booking ''18:30'' ''19:30''))) =
      created ''r-2''"
    by (simp add: bookedLater_eval)
      (simp add: handleCreateReservation_def getUsernameFromToken_def scanTables_def
        scanReservations_def putReservation_def tablesRead_def reservationsRead_def
        tableFilter_def reservationFilter_def between_def newReservation_def created_def
        dayBefore_def requestOf_def booking_def table5_def env0_def env2_def onePage_def Let_def)
  moreover have "fst (handleCreateReservation (env2\<lparr>reservationScanFails := True\<rparr>)
        (booked ''18:00'' ''19:00'') (requestOf (booking ''18:30'' ''19:30''))) =
      internalServerError"
    by (simp add: booked_as_reservation)
      (simp add: handleCreateReservation_def getUsernameFromToken_def scanTables_def
        scanReservations_def tablesRead_def tableFilter_def requestOf_def booking_def
        table5_def env2_def)
  ultimately show ?thesis
    by (simp add: response_defs booked_as_reservation bookedLater_eval
        specConflict_def specOverlap_def reservationOf_fields dayBefore_fields)
qed

text \<open>
  C2, as the code has it. Request A is admitted on store \<open>s0\<close> and leaves store
  \<open>s1\<close>; request B is then admitted on \<open>s1\<close>. \<open>a\<close> is the reservation A persisted
  and \<open>b\<close> the one B persisted. If \<open>a\<close> lies in the page B's conflict scan reads and
  the two are on the same table and date, their ranges do not satisfy the overlap
  predicate of the specification.
\<close>

theorem admitted_pair_no_overlap:
  assumes "handleCreateReservation eA s0 evA = (rA, s1)" and "statusCode rA = 200"
    and "handleCreateReservation eB s1 evB = (rB, s2)" and "statusCode rB = 200"
    and "a \<in> set (take (reservationsPage eB) (reservationsTable s1))"
    and "res_id a = uuidv4 eA"
    and "b \<in> set (reservationsTable s2)" and "res_id b = uuidv4 eB"
    and "res_tableId a = res_tableId b" and "res_date a = res_date b"
  shows "\<not> (res_time a \<le> res_slotTimeEnd b \<and> res_time b \<le> res_slotTimeEnd a)
     \<and> \<not> specOverlap a (res_time b) (res_slotTimeEnd b)"
proof -
  have "\<exists>item. reservationsTable s2 = putItem item (reservationsTable s1) \<and>
      res_id item = uuidv4 eB \<and>
      filter (reservationFilter (res_tableId item) (res_date item) (res_time item)
        (res_slotTimeEnd item)) (take (reservationsPage eB) (reservationsTable s1)) = []"
    using assms(3,4)
    by (fastforce simp: core_defs
        split: if_splits parsed.splits sum.splits list.splits prod.splits)
  then obtain item where id: "res_id item = uuidv4 eB"
    and scan: "filter (reservationFilter (res_tableId item) (res_date item) (res_time item)
        (res_slotTimeEnd item)) (take (reservationsPage eB) (reservationsTable s1)) = []"
    and put: "reservationsTable s2 = putItem item (reservationsTable s1)"
    by blast
  have "b = item"
    using assms(7,8) id put by (auto simp: putItem_def list_ex_iff split: if_splits)
  moreover have "\<not> reservationFilter (res_tableId item) (res_date item) (res_time item)
        (res_slotTimeEnd item) a"
    using scan assms(5) by (simp add: filter_empty_conv)
  ultimately show ?thesis
    using assms(9,10)
    by (auto simp: reservationFilter_def between_def specOverlap_def)
qed

text \<open>
  The instance of C2 at 18:00--19:00 followed by 19:30--20:30.
\<close>

theorem admitted_pair_no_overlap_witness:
  "statusCode (fst (handleCreateReservation env1 scenarioDb
      (requestOf (booking ''18:00'' ''19:00'')))) = 200
   \<and> statusCode (fst (handleCreateReservation env2 (booked ''18:00'' ''19:00'')
      (requestOf (booking ''19:30'' ''20:30'')))) = 200
   \<and> take (reservationsPage env2) (reservationsTable (booked ''18:00'' ''19:00'')) =
      [reservationOf env1 ''18:00'' ''19:00'']
   \<and> \<not> (res_time (reservationOf env1 ''18:00'' ''19:00'') \<le> ''20:30'' \<and>
          ''19:30'' \<le> res_slotTimeEnd (reservationOf env1 ''18:00'' ''19:00''))
   \<and> \<not> specOverlap (reservationOf env1 ''18:00'' ''19:00'') ''19:30'' ''20:30''"
proof -
  let ?hA = "handleCreateReservation env1 scenarioDb (requestOf (booking ''18:00'' ''19:00''))"
  let ?hB = "handleCreateReservation env2 (booked ''18:00'' ''19:00'')
      (requestOf (booking ''19:30'' ''20:30''))"
  have A: "?hA = (created ''r-1'', booked ''18:00'' ''19:00'')"
    by (simp add: booked_as_reservation) (simp add: handler_defs scenario_defs
        reservationOf_def)
  have B: "?hB = (created ''r-2'',
      \<lparr>tablesTable = [table5],
       reservationsTable = [reservationOf env1 ''18:00'' ''19:00'',
         reservationOf env2 ''19:30'' ''20:30''],
       calls = [ScanTables 5, ScanReservations ''T5'' ''2024-06-01'' ''18:00'' ''19:00'',
         PutReservation (reservationOf env1 ''18:00'' ''19:00''),
         ScanTables 5, ScanReservations ''T5'' ''2024-06-01'' ''19:30'' ''20:30'',
         PutReservation (reservationOf env2 ''19:30'' ''20:30'')]\<rparr>)"
    by (simp add: booked_as_reservation)
      (simp add: handler_defs reservationOf_def requestOf_def booking_def table5_def
        env1_def env2_def)
  have read: "take (reservationsPage env2) (reservationsTable (booked ''18:00'' ''19:00'')) =
      [reservationOf env1 ''18:00'' ''19:00'']"
    "take 100 (reservationsTable (booked ''18:00'' ''19:00'')) =
      [reservationOf env1 ''18:00'' ''19:00'']"
    by (simp_all add: booked_as_reservation env_fields)
  have "\<not> (res_time (reservationOf env1 ''18:00'' ''19:00'') \<le>
          res_slotTimeEnd (reservationOf env2 ''19:30'' ''20:30'') \<and>
        res_time (reservationOf env2 ''19:30'' ''20:30'') \<le>
          res_slotTimeEnd (reservationOf env1 ''18:00'' ''19:00''))
      \<and> \<not> specOverlap (reservationOf env1 ''18:00'' ''19:00'')
        (res_time (reservationOf env2 ''19:30'' ''20:30''))
        (res_slotTimeEnd (reservationOf env2 ''19:30'' ''20:30''))"
    using admitted_pair_no_overlap [OF A _ B, of "reservationOf env1 ''18:00'' ''19:00''"
        "reservationOf env2 ''19:30'' ''20:30''"]
    by (simp add: response_defs read) (simp add: reservationOf_fields)
  then show ?thesis
    by (simp add: A B response_defs read) (simp add: reservationOf_fields)
qed

text \<open>
  C2 as worded fails when A lies beyond the page B's scan reads. The store holds a
  reservation of the day before; A (18:00--19:00) is admitted behind it; B
  (18:30--19:30), whose scan reads a page of one item, is admitted too, and the two
  ranges satisfy the overlap predicate.
\<close>

theorem overlapping_pair_admitted_beyond_page:
  "statusCode (fst (handleCreateReservation env1 earlierDb
      (requestOf (booking ''18:00'' ''19:00'')))) = 200
   \<and> statusCode (fst (handleCreateReservation (onePage env2)
      (bookedLater ''18:00'' ''19:00'') (requestOf (booking ''18:30'' ''19:30'')))) = 200
   \<and> reservationsTable (snd (handleCreateReservation (onePage env2)
      (bookedLater ''18:00'' ''19:00'') (requestOf (booking ''18:30'' ''19:30'')))) =
      [newReservation env0 ''alice'' table5 dayBefore,
       reservationOf env1 ''18:00'' ''19:00'', reservationOf env2 ''18:30'' ''19:30'']
   \<and> res_time (reservationOf env1 ''18:00'' ''19:00'') \<le> ''19:30''
   \<and> ''18:30'' \<le> res_slotTimeEnd (reservationOf env1 ''18:00'' ''19:00'')
   \<and> specOverlap (reservationOf env1 ''18:00'' ''19:00'') ''18:30'' ''19:30''"
proof -
  have A: "handleCreateReservation env1 earlierDb (requestOf (booking ''18:00'' ''19:00'')) =
      (created ''r-1'', bookedLater ''18:00'' ''19:00'')"
    by (simp add: bookedLater_eval) 
      (simp add: earlierDb_eval handler_defs dayBefore_def reservationOf_def requestOf_def
        booking_def table5_def env0_def env1_def)
  have B: "handleCreateReservation (onePage env2)
        (bookedLater ''18:00'' ''19:00'') (requestOf (booking ''18:30'' ''19:30'')) =
      (created ''r-2'',
       (bookedLater ''18:00'' ''19:00'')
         \<lparr>reservationsTable := [newReservation env0 ''alice'' table5 dayBefore,
            reservationOf env1 ''18:00'' ''19:00'', reservationOf env2 ''18:30'' ''19:30''],
          calls := calls (bookedLater ''18:00'' ''19:00'') @
            [ScanTables 5, ScanReservations ''T5'' ''2024-06-01'' ''18:30'' ''19:30'',
             PutReservation (reservationOf env2 ''18:30'' ''19:30'')]\<rparr>)"
    by (simp add: bookedLater_eval)
      (simp add: handleCreateReservation_def getUsernameFromToken_def scanTables_def
        scanReservations_def putReservation_def putItem_def tablesRead_def
        reservationsRead_def tableFilter_def reservationFilter_def between_def created_def
        newReservation_def reservationOf_def dayBefore_def
        requestOf_def booking_def table5_def env0_def env1_def env2_def onePage_def Let_def)
  show ?thesis
    by (simp add: A B response_defs specOverlap_def reservationOf_fields)
qed

subsection \<open>Boundaries\<close>

text \<open>
  C3, as the code has it. The conflict scan is answered (the candidate start is not
  after its end, and the store does not fail), and a reservation \<open>r\<close> of the resolved
  table and the requested date lies in the page the scan reads. If the candidate
  starts where \<open>r\<close> (a range with start \<open>\<le>\<close> end) ends, or ends where \<open>r\<close> starts,
  the answer is HTTP 400 with the conflict message, after the two scans and no put.
\<close>

theorem boundary_touch_rejected:
  assumes "authorized ev" and "parsedBody ev = JsonObject b" and "populated b"
    and "tableNumber b = Some n" and "date b = Some d"
    and "slotTimeStart b = Some st" and "slotTimeEnd b = Some en"
    and "fst (scanTables e n s) = Inr (t # ts)"
    and "st \<le> en" and "\<not> reservationScanFails e"
    and "r \<in> set (take (reservationsPage e) (reservationsTable s))"
    and "res_tableId r = tbl_id t" and "res_date r = d"
    and "st = res_slotTimeEnd r \<and> res_time r \<le> res_slotTimeEnd r \<or> en = res_time r"
  shows "statusCode (fst (handleCreateReservation e s ev)) = 400
     \<and> respBody (fst (handleCreateReservation e s ev)) =
        [(''message'', ''Table is already reserved for the selected date and time'')]
     \<and> snd (handleCreateReservation e s ev) =
        s\<lparr>calls := calls s @ [ScanTables n, ScanReservations (tbl_id t) d st en]\<rparr>
     \<and> writes (newCalls e s ev) = []"
proof -
  have "reservationFilter (tbl_id t) d st en r"
    using assms(9,12-14) by (auto simp: reservationFilter_def between_def)
  then have hit: "filter (reservationFilter (tbl_id t) d st en)
      (take (reservationsPage e) (reservationsTable s)) \<noteq> []"
    using assms(11) by (auto simp: filter_empty_conv)
  have ord: "\<not> en < st"
    using assms(9) by simp
  show ?thesis
    using assms(1-8,10) ord hit
    by (simp add: core_defs split: if_splits list.split)
qed

text \<open>
  The instances of C3 at scenario 3: 18:00--19:00 is booked; 19:00--20:00 is rejected,
  and so is 17:00--18:00.
\<close>

theorem boundary_touch_rejected_witness:
  "statusCode (fst (handleCreateReservation env2 (booked ''18:00'' ''19:00'')
      (requestOf (booking ''19:00'' ''20:00'')))) = 400
   \<and> respBody (fst (handleCreateReservation env2 (booked ''18:00'' ''19:00'')
      (requestOf (booking ''19:00'' ''20:00'')))) =
      [(''message'', ''Table is already reserved for the selected date and time'')]
   \<and> writes (newCalls env2 (booked ''18:00'' ''19:00'')
      (requestOf (booking ''19:00'' ''20:00''))) = []
   \<and> statusCode (fst (handleCreateReservation env2 (booked ''18:00'' ''19:00'')
      (requestOf (booking ''17:00'' ''18:00'')))) = 400
   \<and> respBody (fst (handleCreateReservation env2 (booked ''18:00'' ''19:00'')
      (requestOf (booking ''17:00'' ''18:00'')))) =
      [(''message'', ''Table is already reserved for the selected date and time'')]
   \<and> writes (newCalls env2 (booked ''18:00'' ''19:00'')
      (requestOf (booking ''17:00'' ''18:00''))) = []"
proof -
  have read: "take (reservationsPage env2) (reservationsTable (booked ''18:00'' ''19:00'')) =
      [reservationOf env1 ''18:00'' ''19:00'']"
    "take 100 (reservationsTable (booked ''18:00'' ''19:00'')) =
      [reservationOf env1 ''18:00'' ''19:00'']"
    by (simp_all add: booked_as_reservation env_fields)
  have tabs: "fst (scanTables env2 5 (booked ''18:00'' ''19:00'')) = Inr [table5]"
    by (simp add: scanTables_fst env_fields tablesRead_def booked_as_reservation
        tableFilter_def) (simp add: table5_def)
  show ?thesis
    using
      boundary_touch_rejected [of "requestOf (booking ''19:00'' ''20:00'')"
        "booking ''19:00'' ''20:00''" 5 "''2024-06-01''" "''19:00''" "''20:00''" env2
        "booked ''18:00'' ''19:00''" table5 "[]" "reservationOf env1 ''18:00'' ''19:00''"]
      boundary_touch_rejected [of "requestOf (booking ''17:00'' ''18:00'')"
        "booking ''17:00'' ''18:00''" 5 "''2024-06-01''" "''17:00''" "''18:00''" env2
        "booked ''18:00'' ''19:00''" table5 "[]" "reservationOf env1 ''18:00'' ''19:00''"]
      tabs
    by (simp add: request_ok env_fields read reservationOf_fields)
      (simp add: booking_def table5_def)
qed

text \<open>
  C3 as worded fails when the existing reservation lies beyond the page, and when the
  store fails to answer the scan. With 18:00--19:00 booked behind a reservation of the
  day before and a page of one item, the request 19:00--20:00 is admitted. With
  18:00--19:00 booked and the conflict scan failing, the same request gets HTTP 500.
\<close>

theorem boundary_touch_not_rejected:
  "reservationsTable (bookedLater ''18:00'' ''19:00'') =
     [newReservation env0 ''alice'' table5 dayBefore, reservationOf env1 ''18:00'' ''19:00'']
   \<and> statusCode (fst (handleCreateReservation (onePage env2)
        (bookedLater ''18:00'' ''19:00'') (requestOf (booking ''19:00'' ''20:00'')))) = 200
   \<and> writes (newCalls (onePage env2) (bookedLater ''18:00'' ''19:00'')
        (requestOf (booking ''19:00'' ''20:00''))) = [reservationOf env2 ''19:00'' ''20:00'']
   \<and> statusCode (fst (handleCreateReservation (env2\<lparr>reservationScanFails := True\<rparr>)
        (booked ''18:00'' ''19:00'') (requestOf (booking ''19:00'' ''20:00'')))) = 500"
proof -
  have "handleCreateReservation (onePage env2)
        (bookedLater ''18:00'' ''19:00'') (requestOf (booking ''19:00'' ''20:00'')) =
      (created ''r-2'',
       (bookedLater ''18:00'' ''19:00'')
         \<lparr>reservationsTable := [newReservation env0 ''alice'' table5 dayBefore,
            reservationOf env1 ''18:00'' ''19:00'', reservationOf env2 ''19:00'' ''20:00''],
          calls := calls (bookedLater ''18:00'' ''19:00'') @
            [ScanTables 5, ScanReservations ''T5'' ''2024-06-01'' ''19:00'' ''20:00'',
             PutReservation (reservationOf env2 ''19:00'' ''20:00'')]\<rparr>)"
    by (simp add: bookedLater_eval)
      (simp add: handleCreateReservation_def getUsernameFromToken_def scanTables_def
        scanReservations_def putReservation_def putItem_def tablesRead_def
        reservationsRead_def tableFilter_def reservationFilter_def between_def created_def
        newReservation_def reservationOf_def dayBefore_def
        requestOf_def booking_def table5_def env0_def env1_def env2_def onePage_def Let_def)
  moreover have "fst (handleCreateReservation (env2\<lparr>reservationScanFails := True\<rparr>)
        (booked ''18:00'' ''19:00'') (requestOf (booking ''19:00'' ''20:00''))) =
      internalServerError"
    by (simp add: booked_as_reservation)
      (simp add: handleCreateReservation_def getUsernameFromToken_def scanTables_def
        scanReservations_def tablesRead_def tableFilter_def requestOf_def booking_def
        table5_def env2_def)
  ultimately show ?thesis
    by (simp add: response_defs newCalls_def bookedLater_eval)
qed

subsection \<open>The responses\<close>

text \<open>
  C4. When the conflict scan returns at least one item, the response is HTTP 400 with
  the message \<^verbatim>\<open>Table is already reserved for the selected date and time\<close>; the
  handler has made the two scans and no put, and the reservations are what they were.
\<close>

theorem conflict_rejected_without_write:
  assumes "authorized ev" and "parsedBody ev = JsonObject b" and "populated b"
    and "tableNumber b = Some n" and "date b = Some d"
    and "slotTimeStart b = Some st" and "slotTimeEnd b = Some en"
    and "fst (scanTables e n s) = Inr (t # ts)"
    and "fst (scanReservations e (tbl_id t) d st en (snd (scanTables e n s))) = Inr (r # rs)"
  shows "statusCode (fst (handleCreateReservation e s ev)) = 400
     \<and> respBody (fst (handleCreateReservation e s ev)) =
        [(''message'', ''Table is already reserved for the selected date and time'')]
     \<and> snd (handleCreateReservation e s ev) =
        s\<lparr>calls := calls s @ [ScanTables n, ScanReservations (tbl_id t) d st en]\<rparr>
     \<and> reservationsTable (snd (handleCreateReservation e s ev)) = reservationsTable s
     \<and> writes (newCalls e s ev) = []"
  using assms
  by (simp add: core_defs split: if_splits)

text \<open>
  The instance of C4 at scenario 2: 18:00--19:00 is booked, 18:30--19:30 is requested.
\<close>

theorem conflict_rejected_without_write_witness:
  "statusCode (fst (handleCreateReservation env2 (booked ''18:00'' ''19:00'')
      (requestOf (booking ''18:30'' ''19:30'')))) = 400
   \<and> respBody (fst (handleCreateReservation env2 (booked ''18:00'' ''19:00'')
      (requestOf (booking ''18:30'' ''19:30'')))) =
      [(''message'', ''Table is already reserved for the selected date and time'')]
   \<and> reservationsTable (snd (handleCreateReservation env2 (booked ''18:00'' ''19:00'')
        (requestOf (booking ''18:30'' ''19:30'')))) = [reservationOf env1 ''18:00'' ''19:00'']
   \<and> newCalls env2 (booked ''18:00'' ''19:00'') (requestOf (booking ''18:30'' ''19:30'')) =
      [ScanTables 5, ScanReservations ''T5'' ''2024-06-01'' ''18:30'' ''19:30'']
   \<and> writes (newCalls env2 (booked ''18:00'' ''19:00'')
        (requestOf (booking ''18:30'' ''19:30''))) = []"
proof -
  have tabs: "fst (scanTables env2 5 (booked ''18:00'' ''19:00'')) = Inr [table5]"
    by (simp add: scanTables_fst env_fields tablesRead_def booked_as_reservation
        tableFilter_def) (simp add: table5_def)
  have scan: "fst (scanReservations env2 (tbl_id table5) ''2024-06-01'' ''18:30'' ''19:30''
      (snd (scanTables env2 5 (booked ''18:00'' ''19:00'')))) =
      Inr [reservationOf env1 ''18:00'' ''19:00'']"
    by (simp add: scanReservations_fst scanTables_snd_read env_fields)
      (simp add: reservationsRead_def booked_as_reservation reservationFilter_def
        between_def reservationOf_fields env_fields table5_def)
  show ?thesis
    using conflict_rejected_without_write [of "requestOf (booking ''18:30'' ''19:30'')"
        "booking ''18:30'' ''19:30''" 5 "''2024-06-01''" "''18:30''" "''19:30''" env2
        "booked ''18:00'' ''19:00''" table5 "[]" "reservationOf env1 ''18:00'' ''19:00''" "[]"]
      tabs scan
    by (simp add: request_ok newCalls_def)
      (simp add: booking_def booked_as_reservation table5_def)
qed

text \<open>
  C5. When the scan of the tables by number returns no item, the response is HTTP 400
  with the message \<^verbatim>\<open>Table not found\<close>; the table scan is the only call the handler
  has made, so the reservations were neither scanned nor written.
\<close>

theorem unknown_table_rejected:
  assumes "authorized ev" and "parsedBody ev = JsonObject b" and "populated b"
    and "tableNumber b = Some n"
    and "fst (scanTables e n s) = Inr []"
  shows "statusCode (fst (handleCreateReservation e s ev)) = 400
     \<and> respBody (fst (handleCreateReservation e s ev)) = [(''message'', ''Table not found'')]
     \<and> snd (handleCreateReservation e s ev) = s\<lparr>calls := calls s @ [ScanTables n]\<rparr>
     \<and> newCalls e s ev = [ScanTables n]
     \<and> reservationsTable (snd (handleCreateReservation e s ev)) = reservationsTable s"
  using assms
  by (simp add: core_defs split: if_splits)

text \<open>
  The instance of C5 at scenario 4: no table has the number 5.
\<close>

theorem unknown_table_rejected_witness:
  "statusCode (fst (handleCreateReservation env1 (scenarioDb\<lparr>tablesTable := []\<rparr>)
      (requestOf (booking ''18:00'' ''19:00'')))) = 400
   \<and> respBody (fst (handleCreateReservation env1 (scenarioDb\<lparr>tablesTable := []\<rparr>)
      (requestOf (booking ''18:00'' ''19:00'')))) = [(''message'', ''Table not found'')]
   \<and> snd (handleCreateReservation env1 (scenarioDb\<lparr>tablesTable := []\<rparr>)
      (requestOf (booking ''18:00'' ''19:00''))) =
      \<lparr>tablesTable = [], reservationsTable = [], calls = [ScanTables 5]\<rparr>
   \<and> newCalls env1 (scenarioDb\<lparr>tablesTable := []\<rparr>)
        (requestOf (booking ''18:00'' ''19:00'')) = [ScanTables 5]"
  using unknown_table_rejected [of "requestOf (booking ''18:00'' ''19:00'')"
      "booking ''18:00'' ''19:00''" 5 env1 "scenarioDb\<lparr>tablesTable := []\<rparr>"]
  by (simp add: request_ok scanTables_fst env_fields tablesRead_def)
    (simp add: booking_def scenarioDb_def)




text \<open>
  C7, as the code has it. An authorized, populated request whose table scan returns
  \<open>t\<close> first, whose conflict scan returns no item and whose put the store carries out
  gets HTTP 200 with the generated identifier and the message
  \<^verbatim>\<open>Reservation created successfully\<close>. The handler makes one put, of the item built
  from the request, the generated identifier and the creation time; the item is in the
  store afterwards, and it is one more item when the identifier is fresh.
\<close>

theorem admitted_request_persisted:
  assumes "authorized ev" and "parsedBody ev = JsonObject b" and "populated b"
    and "getUsernameFromToken ev = Some u"
    and "tableNumber b = Some n" and "date b = Some d"
    and "slotTimeStart b = Some st" and "slotTimeEnd b = Some en"
    and "fst (scanTables e n s) = Inr (t # ts)"
    and "fst (scanReservations e (tbl_id t) d st en (snd (scanTables e n s))) = Inr []"
    and "\<not> putFails e"
    and "item =
      \<lparr>res_id = uuidv4 e, res_tableId = tbl_id t, res_tableNumber = tbl_number t,
       res_clientName = clientName b, res_phoneNumber = phoneNumber b, res_username = u,
       res_date = d, res_time = st, res_slotTimeEnd = en, res_createdAt = nowISO e\<rparr>"
  shows "statusCode (fst (handleCreateReservation e s ev)) = 200
     \<and> respBody (fst (handleCreateReservation e s ev)) =
        [(''reservationId'', uuidv4 e), (''message'', ''Reservation created successfully'')]
     \<and> snd (handleCreateReservation e s ev) =
        s\<lparr>reservationsTable := putItem item (reservationsTable s),
          calls := calls s @
            [ScanTables n, ScanReservations (tbl_id t) d st en, PutReservation item]\<rparr>
     \<and> item \<in> set (reservationsTable (snd (handleCreateReservation e s ev)))
     \<and> writes (newCalls e s ev) = [item]
     \<and> (uuidv4 e \<notin> res_id ` set (reservationsTable s) \<longrightarrow>
          reservationsTable (snd (handleCreateReservation e s ev)) =
            reservationsTable s @ [item])"
proof -
  have run: "handleCreateReservation e s ev =
     (\<lparr>statusCode = 200, headers = corsHeaders,
       respBody = [(''reservationId'', uuidv4 e),
         (''message'', ''Reservation created successfully'')]\<rparr>,
      s\<lparr>reservationsTable := putItem item (reservationsTable s),
        calls := calls s @
          [ScanTables n, ScanReservations (tbl_id t) d st en, PutReservation item]\<rparr>)"
    using assms
    by (simp add: core_defs split: if_splits)
  have mem: "item \<in> set (putItem item (reservationsTable s))"
    by (auto simp: putItem_def list_ex_iff)
  have fresh: "putItem item (reservationsTable s) = reservationsTable s @ [item]"
    if "uuidv4 e \<notin> res_id ` set (reservationsTable s)"
  proof -
    have "\<not> list_ex (\<lambda>r. res_id r = res_id item) (reservationsTable s)"
      using that assms(12) unfolding list_ex_iff image_iff by auto
    then show ?thesis
      by (simp add: putItem_def)
  qed
  show ?thesis
    using mem fresh by (simp add: run newCalls_def)
qed

text \<open>
  The instance of C7: 18:00--19:00 is booked, 19:30--20:30 is requested and admitted.
\<close>

theorem admitted_request_persisted_witness:
  "statusCode (fst (handleCreateReservation env2 (booked ''18:00'' ''19:00'')
      (requestOf (booking ''19:30'' ''20:30'')))) = 200
   \<and> respBody (fst (handleCreateReservation env2 (booked ''18:00'' ''19:00'')
      (requestOf (booking ''19:30'' ''20:30'')))) =
      [(''reservationId'', ''r-2''), (''message'', ''Reservation created successfully'')]
   \<and> snd (handleCreateReservation env2 (booked ''18:00'' ''19:00'')
      (requestOf (booking ''19:30'' ''20:30''))) =
      \<lparr>tablesTable = [table5],
       reservationsTable =
         [reservationOf env1 ''18:00'' ''19:00'', reservationOf env2 ''19:30'' ''20:30''],
       calls = calls (booked ''18:00'' ''19:00'') @
         [ScanTables 5, ScanReservations ''T5'' ''2024-06-01'' ''19:30'' ''20:30'',
          PutReservation (reservationOf env2 ''19:30'' ''20:30'')]\<rparr>
   \<and> res_id (reservationOf env2 ''19:30'' ''20:30'') = ''r-2''
   \<and> res_createdAt (reservationOf env2 ''19:30'' ''20:30'') = ''2024-05-30T11:00:00.000Z''
   \<and> writes (newCalls env2 (booked ''18:00'' ''19:00'')
        (requestOf (booking ''19:30'' ''20:30''))) = [reservationOf env2 ''19:30'' ''20:30'']"
proof -
  have fresh: "uuidv4 env2 \<notin> res_id ` set (reservationsTable (booked ''18:00'' ''19:00''))"
    by (simp add: booked_as_reservation reservationOf_fields env_fields)
  have item: "reservationOf env2 ''19:30'' ''20:30'' =
      \<lparr>res_id = uuidv4 env2, res_tableId = tbl_id table5, res_tableNumber = tbl_number table5,
       res_clientName = clientName (booking ''19:30'' ''20:30''),
       res_phoneNumber = phoneNumber (booking ''19:30'' ''20:30''), res_username = ''alice'',
       res_date = ''2024-06-01'', res_time = ''19:30'', res_slotTimeEnd = ''20:30'',
       res_createdAt = nowISO env2\<rparr>"
    by (simp add: reservationOf_def newReservation_def booking_def)
  have tabs: "fst (scanTables env2 5 (booked ''18:00'' ''19:00'')) = Inr [table5]"
    by (simp add: scanTables_fst env_fields tablesRead_def booked_as_reservation
        tableFilter_def) (simp add: table5_def)
  have scan: "fst (scanReservations env2 (tbl_id table5) ''2024-06-01'' ''19:30'' ''20:30''
      (snd (scanTables env2 5 (booked ''18:00'' ''19:00'')))) = Inr []"
    by (simp add: scanReservations_fst scanTables_snd_read env_fields)
      (simp add: reservationsRead_def booked_as_reservation reservationFilter_def
        between_def reservationOf_fields env_fields table5_def)
  have "statusCode (fst (handleCreateReservation env2 (booked ''18:00'' ''19:00'')
        (requestOf (booking ''19:30'' ''20:30'')))) = 200
     \<and> respBody (fst (handleCreateReservation env2 (booked ''18:00'' ''19:00'')
        (requestOf (booking ''19:30'' ''20:30'')))) =
        [(''reservationId'', uuidv4 env2), (''message'', ''Reservation created successfully'')]
     \<and> snd (handleCreateReservation env2 (booked ''18:00'' ''19:00'')
        (requestOf (booking ''19:30'' ''20:30''))) =
        (booked ''18:00'' ''19:00'')
          \<lparr>reservationsTable := reservationsTable (booked ''18:00'' ''19:00'') @
             [reservationOf env2 ''19:30'' ''20:30''],
           calls := calls (booked ''18:00'' ''19:00'') @
             [ScanTables 5, ScanReservations (tbl_id table5) ''2024-06-01'' ''19:30'' ''20:30'',
              PutReservation (reservationOf env2 ''19:30'' ''20:30'')]\<rparr>
     \<and> writes (newCalls env2 (booked ''18:00'' ''19:00'')
        (requestOf (booking ''19:30'' ''20:30''))) = [reservationOf env2 ''19:30'' ''20:30'']"
    using admitted_request_persisted [of "requestOf (booking ''19:30'' ''20:30'')"
        "booking ''19:30'' ''20:30''" "''alice''" 5 "''2024-06-01''" "''19:30''" "''20:30''"
        env2 "booked ''18:00'' ''19:00''" table5 "[]" "reservationOf env2 ''19:30'' ''20:30''"]
      fresh tabs scan item [symmetric]
    by (simp add: request_ok env_fields putItem_fresh reservationOf_fields)
      (simp add: booking_def)
  then show ?thesis
    by (simp add: reservationOf_fields env_fields) 
      (simp add: booked_as_reservation table5_def)
qed

text \<open>
  C7 as worded fails when the store does not carry out a call. On the store of
  scenario 1 (table 5, no reservation) the request 18:00--19:00 with a failing put has
  both scans answered and gets HTTP 500 with nothing stored; the request 20:00--10:00
  finds no reservation either, its conflict scan is refused, and it gets HTTP 500.
\<close>

theorem unmatched_request_gets_500:
  "newCalls (env1\<lparr>putFails := True\<rparr>) scenarioDb (requestOf (booking ''18:00'' ''19:00'')) =
     [ScanTables 5, ScanReservations ''T5'' ''2024-06-01'' ''18:00'' ''19:00'',
      Refused (PutReservation (reservationOf env1 ''18:00'' ''19:00''))]
   \<and> statusCode (fst (handleCreateReservation (env1\<lparr>putFails := True\<rparr>) scenarioDb
        (requestOf (booking ''18:00'' ''19:00'')))) = 500
   \<and> reservationsTable (snd (handleCreateReservation (env1\<lparr>putFails := True\<rparr>) scenarioDb
        (requestOf (booking ''18:00'' ''19:00'')))) = []
   \<and> reservationsTable scenarioDb = []
   \<and> statusCode (fst (handleCreateReservation env1 scenarioDb
        (requestOf (booking ''20:00'' ''10:00'')))) = 500
   \<and> reservationsTable (snd (handleCreateReservation env1 scenarioDb
        (requestOf (booking ''20:00'' ''10:00'')))) = []"
  by (simp add: newCalls_def handler_defs scenario_defs reservationOf_def)

text \<open>
  C8. Two stores with the same reservations whose table scans for the requested number
  start with the same item \<open>t\<close> give the same response and the same reservations and
  calls: what follows \<open>t\<close> in the scan has no effect. The conflict scan is issued with
  the identifier of \<open>t\<close>, and a put is of a reservation of \<open>t\<close>.
\<close>

theorem first_match_wins:
  assumes "parsedBody ev = JsonObject b" and "tableNumber b = Some n"
    and "fst (scanTables e n s) = Inr (t # ts)" and "fst (scanTables e n s') = Inr (t # ts')"
    and "reservationsTable s' = reservationsTable s" and "calls s' = calls s"
  shows "fst (handleCreateReservation e s' ev) = fst (handleCreateReservation e s ev)
     \<and> reservationsTable (snd (handleCreateReservation e s' ev)) =
        reservationsTable (snd (handleCreateReservation e s ev))
     \<and> calls (snd (handleCreateReservation e s' ev)) =
        calls (snd (handleCreateReservation e s ev))
     \<and> (\<forall>tid d st en.
          ScanReservations tid d st en \<in> set (map issued (newCalls e s ev)) \<longrightarrow>
          tid = tbl_id t)
     \<and> (\<forall>r. PutReservation r \<in> set (map issued (newCalls e s ev)) \<longrightarrow>
          res_tableId r = tbl_id t)
     \<and> (authorized ev \<and> populated b \<longrightarrow>
          ScanReservations (tbl_id t) (the (date b)) (the (slotTimeStart b))
            (the (slotTimeEnd b)) \<in> set (map issued (newCalls e s ev)))
     \<and> (authorized ev \<and> populated b \<and> the (slotTimeStart b) \<le> the (slotTimeEnd b) \<and>
        \<not> reservationScanFails e \<longrightarrow>
          ScanReservations (tbl_id t) (the (date b)) (the (slotTimeStart b))
            (the (slotTimeEnd b)) \<in> set (newCalls e s ev))"
proof -
  have tabs: "\<not> tableScanFails e"
    "filter (tableFilter n) (take (tablesPage e) (tablesTable s)) = t # ts"
    "filter (tableFilter n) (take (tablesPage e) (tablesTable s')) = t # ts'"
    using assms(3,4) by (simp_all add: scanTables_def tablesRead_def split: if_splits)
  show ?thesis
  proof (cases "authorized ev \<and> populated b")
    case False
    have "unauthorized \<noteq> requiredFields"
      by (simp add: unauthorized_def requiredFields_def formatResponse_def)
    moreover have "handleCreateReservation e s ev = (unauthorized, s) \<and>
        handleCreateReservation e s' ev = (unauthorized, s') \<or>
        handleCreateReservation e s ev = (requiredFields, s) \<and>
        handleCreateReservation e s' ev = (requiredFields, s')"
      using False assms(1)
      by (auto simp: handleCreateReservation_def authorized_def populated_def Let_def)
    ultimately show ?thesis
      using False assms(5,6) by (auto simp: newCalls_def)
  next
    case True
    then have req: "truthyStr (getUsernameFromToken ev)" "truthyNum (tableNumber b)"
      "truthyStr (date b)" "truthyStr (slotTimeStart b)" "truthyStr (slotTimeEnd b)"
      by (simp_all add: authorized_def populated_def)
    show ?thesis
    proof (cases "the (slotTimeEnd b) < the (slotTimeStart b)")
      case True
      then have "\<not> the (slotTimeStart b) \<le> the (slotTimeEnd b)"
        by simp
      then show ?thesis
        using assms(1,2,5,6) tabs req True
        by (simp add: handleCreateReservation_def scanTables_def scanReservations_def
            tablesRead_def newCalls_def authorized_def populated_def)
    next
      case False
      then have ord: "the (slotTimeStart b) \<le> the (slotTimeEnd b)"
        by simp
      show ?thesis
        using assms(1,2,5,6) tabs req False ord
        by (simp add: handleCreateReservation_def scanTables_def scanReservations_def
            putReservation_def newReservation_def tablesRead_def reservationsRead_def
            newCalls_def authorized_def populated_def Let_def split: list.split)
    qed
  qed
qed

text \<open>
  The instance of C8: tables \<open>T5\<close> and \<open>T5b\<close> both have the number 5, \<open>T5\<close> first.
\<close>

theorem first_match_wins_witness:
  "fst (handleCreateReservation env1 (scenarioDb\<lparr>tablesTable := [table5, table5b]\<rparr>)
       (requestOf (booking ''18:00'' ''19:00''))) =
   fst (handleCreateReservation env1 scenarioDb (requestOf (booking ''18:00'' ''19:00'')))
   \<and> reservationsTable
       (snd (handleCreateReservation env1 (scenarioDb\<lparr>tablesTable := [table5, table5b]\<rparr>)
         (requestOf (booking ''18:00'' ''19:00'')))) =
     [reservationOf env1 ''18:00'' ''19:00'']
   \<and> res_tableId (reservationOf env1 ''18:00'' ''19:00'') = ''T5''
   \<and> ScanReservations ''T5'' ''2024-06-01'' ''18:00'' ''19:00''
       \<in> set (newCalls env1 scenarioDb (requestOf (booking ''18:00'' ''19:00'')))"
proof -
  have h: "handleCreateReservation env1 scenarioDb (requestOf (booking ''18:00'' ''19:00'')) =
      (created ''r-1'', booked ''18:00'' ''19:00'')"
    by (simp add: booked_as_reservation)
      (simp add: handler_defs scenario_defs reservationOf_def)
  have tabs: "fst (scanTables env1 5 scenarioDb) = Inr [table5]"
    "fst (scanTables env1 5 (scenarioDb\<lparr>tablesTable := [table5, table5b]\<rparr>)) =
      Inr [table5, table5b]"
    by (simp_all add: scanTables_fst tablesRead_def tableFilter_def scenarioDb_def table5_def
        table5b_def env1_def)
  have "fst (handleCreateReservation env1 (scenarioDb\<lparr>tablesTable := [table5, table5b]\<rparr>)
         (requestOf (booking ''18:00'' ''19:00''))) = created ''r-1''
     \<and> reservationsTable
         (snd (handleCreateReservation env1 (scenarioDb\<lparr>tablesTable := [table5, table5b]\<rparr>)
           (requestOf (booking ''18:00'' ''19:00'')))) =
       reservationsTable (booked ''18:00'' ''19:00'')"
    using first_match_wins [of "requestOf (booking ''18:00'' ''19:00'')"
        "booking ''18:00'' ''19:00''" 5 env1 scenarioDb table5 "[]"
        "scenarioDb\<lparr>tablesTable := [table5, table5b]\<rparr>" "[table5b]"] tabs
    by (simp add: request_ok h) (simp add: booking_def)
  moreover have "ScanReservations ''T5'' ''2024-06-01'' ''18:00'' ''19:00''
       \<in> set (newCalls env1 scenarioDb (requestOf (booking ''18:00'' ''19:00'')))"
    by (simp add: newCalls_def h booked_as_reservation) (simp add: scenarioDb_def)
  ultimately show ?thesis
    by (simp add: h booked_as_reservation reservationOf_fields)
qed

text \<open>
  C9. An authorized request whose \<^verbatim>\<open>tableNumber\<close> is 0, or whose \<^verbatim>\<open>date\<close>,
  \<^verbatim>\<open>slotTimeStart\<close> or \<^verbatim>\<open>slotTimeEnd\<close> is the empty string, gets the HTTP 400
  required-fields response with the store untouched: the outcome of the same request
  with any of the four fields absent.
\<close>

theorem falsy_field_rejected:
  assumes "authorized ev" and "parsedBody ev = JsonObject b"
    and "tableNumber b = Some 0 \<or> date b = Some [] \<or>
         slotTimeStart b = Some [] \<or> slotTimeEnd b = Some []"
  shows "handleCreateReservation e s ev =
     (formatResponse 400
        [(''message'', ''Table number, date, slotTimeStart, and slotTimeEnd are required'')],
      s)
     \<and> statusCode (fst (handleCreateReservation e s ev)) = 400
     \<and> respBody (fst (handleCreateReservation e s ev)) =
        [(''message'', ''Table number, date, slotTimeStart, and slotTimeEnd are required'')]
     \<and> handleCreateReservation e s (ev\<lparr>parsedBody := JsonObject (b\<lparr>tableNumber := None\<rparr>)\<rparr>) =
        handleCreateReservation e s ev
     \<and> handleCreateReservation e s (ev\<lparr>parsedBody := JsonObject (b\<lparr>date := None\<rparr>)\<rparr>) =
        handleCreateReservation e s ev
     \<and> handleCreateReservation e s
          (ev\<lparr>parsedBody := JsonObject (b\<lparr>slotTimeStart := None\<rparr>)\<rparr>) =
        handleCreateReservation e s ev
     \<and> handleCreateReservation e s
          (ev\<lparr>parsedBody := JsonObject (b\<lparr>slotTimeEnd := None\<rparr>)\<rparr>) =
        handleCreateReservation e s ev"
  using assms
  by (auto simp: core_defs)

text \<open>
  The instances of C9 at \<^verbatim>\<open>tableNumber: 0\<close> and at \<^verbatim>\<open>slotTimeEnd: ""\<close>.
\<close>

theorem falsy_field_rejected_witness:
  "handleCreateReservation env1 scenarioDb
      (requestOf ((booking ''18:00'' ''19:00'')\<lparr>tableNumber := Some 0\<rparr>)) =
     (formatResponse 400
        [(''message'', ''Table number, date, slotTimeStart, and slotTimeEnd are required'')],
      scenarioDb)
   \<and> statusCode (fst (handleCreateReservation env1 scenarioDb
      (requestOf ((booking ''18:00'' ''19:00'')\<lparr>tableNumber := Some 0\<rparr>)))) = 400
   \<and> handleCreateReservation env1 scenarioDb (requestOf (booking ''18:00'' [])) =
     (formatResponse 400
        [(''message'', ''Table number, date, slotTimeStart, and slotTimeEnd are required'')],
      scenarioDb)
   \<and> statusCode (fst (handleCreateReservation env1 scenarioDb
      (requestOf (booking ''18:00'' [])))) = 400"
proof -
  have p1: "tableNumber ((booking ''18:00'' ''19:00'')\<lparr>tableNumber := Some 0\<rparr>) = Some 0 \<or>
      date ((booking ''18:00'' ''19:00'')\<lparr>tableNumber := Some 0\<rparr>) = Some [] \<or>
      slotTimeStart ((booking ''18:00'' ''19:00'')\<lparr>tableNumber := Some 0\<rparr>) = Some [] \<or>
      slotTimeEnd ((booking ''18:00'' ''19:00'')\<lparr>tableNumber := Some 0\<rparr>) = Some []"
    by simp
  have p2: "tableNumber (booking ''18:00'' []) = Some 0 \<or>
      date (booking ''18:00'' []) = Some [] \<or>
      slotTimeStart (booking ''18:00'' []) = Some [] \<or>
      slotTimeEnd (booking ''18:00'' []) = Some []"
    by (simp add: booking_def)
  show ?thesis
    using falsy_field_rejected [OF request_ok(1) request_ok(2) p1, of env1 scenarioDb]
      falsy_field_rejected [OF request_ok(1) request_ok(2) p2, of env1 scenarioDb]
    by blast
qed

subsection \<open>The frame\<close>

text \<open>
  C10. On every path the tables are unchanged and the log only grows. Either the handler
  made no put that was carried out and the reservations are unchanged, or it made one
  put, of an item that carries the generated identifier, on the path that answers HTTP
  200. No reservation is removed; a stored reservation whose identifier differs from the
  generated one is unchanged at its place, and with a fresh identifier that is every
  stored reservation.
\<close>

theorem only_write_is_new_item:
  "tablesTable (snd (handleCreateReservation e s ev)) = tablesTable s
   \<and> calls (snd (handleCreateReservation e s ev)) = calls s @ newCalls e s ev
   \<and> (writes (newCalls e s ev) = [] \<and>
        reservationsTable (snd (handleCreateReservation e s ev)) = reservationsTable s
      \<or> (\<exists>item. writes (newCalls e s ev) = [item] \<and> res_id item = uuidv4 e \<and>
            statusCode (fst (handleCreateReservation e s ev)) = 200 \<and>
            reservationsTable (snd (handleCreateReservation e s ev)) =
              putItem item (reservationsTable s)))
   \<and> length (reservationsTable s) \<le>
        length (reservationsTable (snd (handleCreateReservation e s ev)))
   \<and> (\<forall>i<length (reservationsTable s).
          res_id (reservationsTable s ! i) \<noteq> uuidv4 e \<longrightarrow>
          reservationsTable (snd (handleCreateReservation e s ev)) ! i =
            reservationsTable s ! i)
   \<and> (uuidv4 e \<notin> res_id ` set (reservationsTable s) \<longrightarrow>
        take (length (reservationsTable s))
          (reservationsTable (snd (handleCreateReservation e s ev))) = reservationsTable s)"
proof -
  let ?h = "handleCreateReservation e s ev"
  have A: "tablesTable (snd ?h) = tablesTable s \<and> calls (snd ?h) = calls s @ newCalls e s ev"
    by (simp add: core_defs split: parsed.split sum.split list.split prod.split)
  have B: "writes (newCalls e s ev) = [] \<and> reservationsTable (snd ?h) = reservationsTable s
      \<or> (\<exists>item. writes (newCalls e s ev) = [item] \<and> res_id item = uuidv4 e \<and>
            statusCode (fst ?h) = 200 \<and>
            reservationsTable (snd ?h) = putItem item (reservationsTable s))"
    by (simp add: core_defs split: parsed.split sum.split list.split prod.split)
  have len: "length rs \<le> length (putItem item rs)" for item rs
    by (simp add: putItem_def)
  have nth: "putItem item rs ! i = rs ! i"
    if "i < length rs" "res_id (rs ! i) \<noteq> res_id item" for item rs i
    using that by (auto simp: putItem_def nth_append)
  have app: "take (length rs) (putItem item rs) = rs"
    if "res_id item \<notin> res_id ` set rs" for item rs
  proof -
    have "\<not> list_ex (\<lambda>r. res_id r = res_id item) rs"
      using that unfolding list_ex_iff image_iff by auto
    then show ?thesis
      by (simp add: putItem_def)
  qed
  have C: "length (reservationsTable s) \<le> length (reservationsTable (snd ?h))"
    using B len by auto
  have D: "reservationsTable (snd ?h) ! i = reservationsTable s ! i"
    if "i < length (reservationsTable s)" "res_id (reservationsTable s ! i) \<noteq> uuidv4 e" for i
    using B that nth by auto
  have E: "take (length (reservationsTable s)) (reservationsTable (snd ?h)) = reservationsTable s"
    if "uuidv4 e \<notin> res_id ` set (reservationsTable s)"
    using B that app by auto
  show ?thesis
    using A B C D E by blast
qed

text \<open>
  The instance of C10: 18:00--19:00 is booked and stays as it is when 19:30--20:30 is
  admitted.
\<close>

theorem only_write_is_new_item_witness:
  "tablesTable (snd (handleCreateReservation env2 (booked ''18:00'' ''19:00'')
      (requestOf (booking ''19:30'' ''20:30'')))) = [table5]
   \<and> reservationsTable (snd (handleCreateReservation env2 (booked ''18:00'' ''19:00'')
      (requestOf (booking ''19:30'' ''20:30'')))) ! 0 = reservationOf env1 ''18:00'' ''19:00''
   \<and> take 1 (reservationsTable (snd (handleCreateReservation env2 (booked ''18:00'' ''19:00'')
      (requestOf (booking ''19:30'' ''20:30''))))) = [reservationOf env1 ''18:00'' ''19:00'']
   \<and> uuidv4 env2 \<notin> res_id ` set (reservationsTable (booked ''18:00'' ''19:00''))"
proof -
  have fresh: "uuidv4 env2 \<notin> res_id ` set (reservationsTable (booked ''18:00'' ''19:00''))"
    by (simp add: booked_as_reservation reservationOf_fields env_fields)
  have other: "res_id (reservationOf env1 ''18:00'' ''19:00'') \<noteq> uuidv4 env2"
    by (simp add: reservationOf_fields env_fields)
  show ?thesis
    using only_write_is_new_item [of env2 "booked ''18:00'' ''19:00''"
        "requestOf (booking ''19:30'' ''20:30'')"] fresh other
    by (simp add: booked_as_reservation)
qed

end
